theory Spec2Isabelle
  imports Main "HOL-Library.Multiset" "HOL-Library.Product_Lexorder"
begin

section \<open>The database of streamlit_donut_app.py\<close>

text \<open>
  The application keeps everything in one SQLite database with three tables. A table is
  modelled as the list of its rows in rowid order, a row as a record (or a pair), and every
  SQL statement of the source as a function on these lists. SQLite integers are modelled
  as unbounded \<open>int\<close>; quantities and counts never come near the 64-bit range.

  \<^item> \<open>recipes\<close>: one row per recipe. The columns are those the search query reads
    (lines 268-284): \<open>id\<close>, \<open>ingredients\<close>, \<open>stars\<close>, \<open>final_calories\<close>,
    \<open>final_boost\<close>, \<open>num_berries\<close>, the five flavor scores and \<open>flavor_sum\<close>.
  \<^item> \<open>recipe_items\<close>: one row per (recipe, berry) with the required count (line 93).
  \<^item> \<open>user_inventory (berry_name TEXT PRIMARY KEY, quantity INTEGER)\<close> (line 35).
\<close>

record recipe =
  id' :: int
  ingredients :: string
  stars :: int
  final_calories :: int
  final_boost :: int
  num_berries :: int
  sweet :: int
  spicy :: int
  sour :: int
  bitter :: int
  fresh :: int
  flavor_sum :: int

record recipe_item =
  recipe_id :: int
  berry_name :: string
  count' :: int

text \<open>A row of \<open>user_inventory\<close> is the pair (berry_name, quantity).\<close>

type_synonym inventory = "(string \<times> int) list"

record db =
  recipes :: "recipe list"
  recipe_items :: "recipe_item list"
  user_inventory :: inventory

text \<open>
  The PRIMARY KEY constraint of line 35: no two rows of \<open>user_inventory\<close> carry the same
  berry name. SQLite enforces it; here it is a predicate that the statements below are
  proved to preserve.
\<close>

definition primary_key :: "inventory \<Rightarrow> bool" where
  "primary_key ui = distinct (map fst ui)"

section \<open>Statements that write user_inventory\<close>

text \<open>
  Line 41: \<open>INSERT OR IGNORE INTO user_inventory (berry_name, quantity) VALUES (?, 0)\<close>.
  A name that is already a key is ignored, any other name gets a new row with quantity 0.
\<close>

definition insert_or_ignore :: "string \<Rightarrow> inventory \<Rightarrow> inventory" where
  "insert_or_ignore name ui =
     (if name \<in> set (map fst ui) then ui else ui @ [(name, 0)])"

text \<open>
  Line 38: \<open>SELECT DISTINCT berry_name FROM recipe_items\<close>. The table is scanned in
  row order and a name is returned where it occurs first (\<open>remdups\<close> alone would keep
  the last occurrence of a name).
\<close>

definition select_distinct :: "string list \<Rightarrow> string list" where
  "select_distinct names = rev (remdups (rev names))"

text \<open>
  \<open>init_db\<close> (lines 27-43): when \<open>SELECT count(*) FROM user_inventory\<close> is 0, every
  distinct berry name of \<open>recipe_items\<close> is inserted with quantity 0, in the order of
  line 38; otherwise the table is left alone. (The database file is taken to exist:
  without it the script stops at line 31.)
\<close>

definition init_db :: "db \<Rightarrow> db" where
  "init_db d =
     (if length (user_inventory d) = 0
      then d\<lparr>user_inventory :=
              fold insert_or_ignore (select_distinct (map berry_name (recipe_items d)))
                (user_inventory d)\<rparr>
      else d)"

text \<open>
  Line 82: \<open>UPDATE user_inventory SET quantity = ? WHERE berry_name = ?\<close>. Every row
  whose key is the name gets the new quantity; when no row matches nothing happens.
\<close>

definition set_quantity :: "string \<Rightarrow> int \<Rightarrow> inventory \<Rightarrow> inventory" where
  "set_quantity name quantity ui =
     map (\<lambda>(n, q). if n = name then (n, quantity) else (n, q)) ui"

text \<open>
  \<open>save_inventory\<close> (lines 77-87): \<open>executemany\<close> runs the UPDATE of line 82 once per
  row of the data frame, in row order. The data frame is the list of its
  (berry_name, quantity) rows. The CSV file written at line 87 only fixes the display
  order of \<open>load_inventory\<close> and is not part of the model.
\<close>

fun update_rows :: "(string \<times> int) list \<Rightarrow> inventory \<Rightarrow> inventory" where
  "update_rows [] ui = ui"
| "update_rows ((name, quantity) # rows) ui = update_rows rows (set_quantity name quantity ui)"

definition save_inventory :: "(string \<times> int) list \<Rightarrow> db \<Rightarrow> db" where
  "save_inventory df d = d\<lparr>user_inventory := update_rows df (user_inventory d)\<rparr>"

text \<open>
  The import of lines 132-154. \<open>columns\<close> are the column names of the uploaded file after
  the normalisation of line 139; \<open>rows\<close> are its (berry_name, quantity) rows. The only
  check before \<open>save_inventory\<close> is that both column names are present (line 142).
\<close>

definition confirm_import :: "string list \<Rightarrow> (string \<times> int) list \<Rightarrow> db \<Rightarrow> db" where
  "confirm_import columns rows d =
     (if ''berry_name'' \<in> set columns \<and> ''quantity'' \<in> set columns
      then save_inventory rows d
      else d)"

text \<open>
  Line 97: \<open>UPDATE user_inventory SET quantity = MAX(0, quantity - ?) WHERE berry_name = ?\<close>.
  This is the decrement of the inventory store.
\<close>

definition decrement :: "string \<Rightarrow> int \<Rightarrow> inventory \<Rightarrow> inventory" where
  "decrement name amount ui =
     map (\<lambda>(n, q). if n = name then (n, max 0 (q - amount)) else (n, q)) ui"

text \<open>
  Line 93: \<open>SELECT berry_name, count FROM recipe_items WHERE recipe_id = ?\<close>, the
  ingredient list of a recipe.
\<close>

definition select_ingredients :: "recipe_item list \<Rightarrow> int \<Rightarrow> (string \<times> int) list" where
  "select_ingredients items rid =
     map (\<lambda>ri. (berry_name ri, count' ri)) (filter (\<lambda>ri. recipe_id ri = rid) items)"

text \<open>The loop of lines 96-97: one decrement per fetched row, in order.\<close>

fun deduct :: "(string \<times> int) list \<Rightarrow> inventory \<Rightarrow> inventory" where
  "deduct [] ui = ui"
| "deduct ((name, c) # rest) ui = deduct rest (decrement name c ui)"

text \<open>
  \<open>cook_recipe\<close> (lines 89-100). The source has no failing path: it fetches the rows,
  runs the loop and commits. The result type has room for the error that the
  specification names, so that the absence of that error can be stated; the function
  itself always returns \<open>Inr\<close>.
\<close>

datatype error = NotFoundError

definition cook_recipe :: "int \<Rightarrow> db \<Rightarrow> error + db" where
  "cook_recipe rid d =
     Inr (d\<lparr>user_inventory :=
              deduct (select_ingredients (recipe_items d) rid) (user_inventory d)\<rparr>)"

section \<open>The search of Tab 3\<close>

text \<open>
  The filters stored at lines 249-253. The keys of \<open>flavor_filters\<close> and the first
  component of \<open>stat_filter\<close> are column names of \<open>recipes\<close>, taken from the fixed lists
  of lines 218 and 231-242; they are modelled as a datatype, so a name that is no column
  cannot occur. A dictionary is the list of its items in insertion order.
\<close>

datatype column =
  Sweet | Spicy | Sour | Bitter | Fresh | Stars | Flavor_Sum | Final_Boost | Final_Calories

fun col :: "column \<Rightarrow> recipe \<Rightarrow> int" where
  "col Sweet r = sweet r"
| "col Spicy r = spicy r"
| "col Sour r = sour r"
| "col Bitter r = bitter r"
| "col Fresh r = fresh r"
| "col Stars r = stars r"
| "col Flavor_Sum r = flavor_sum r"
| "col Final_Boost r = final_boost r"
| "col Final_Calories r = final_calories r"

record filters =
  flavors :: "(column \<times> int \<times> int) list"
  stats :: "(column \<times> int \<times> int) option"
  prio :: bool

text \<open>\<open>r.col BETWEEN min_v AND max_v\<close> (lines 269 and 273).\<close>

definition between :: "column \<Rightarrow> int \<Rightarrow> int \<Rightarrow> recipe \<Rightarrow> bool" where
  "between c min_v max_v r = (min_v \<le> col c r \<and> col c r \<le> max_v)"

text \<open>Lines 266-273: one clause per flavor item, then the clause of the stat filter.\<close>

definition where_clauses :: "filters \<Rightarrow> (recipe \<Rightarrow> bool) list" where
  "where_clauses f =
     map (\<lambda>(c, min_v, max_v). between c min_v max_v) (flavors f) @
     (case stats f of
        None \<Rightarrow> []
      | Some (c, min_v, max_v) \<Rightarrow> [between c min_v max_v])"

text \<open>Lines 275-276: the clauses joined by AND; no clause, no condition.\<close>

definition where_sql :: "filters \<Rightarrow> recipe \<Rightarrow> bool" where
  "where_sql f r = list_all (\<lambda>clause. clause r) (where_clauses f)"

text \<open>
  Line 288: \<open>recipe_items ri LEFT JOIN user_inventory ui ON ri.berry_name = ui.berry_name\<close>.
  Every item row is paired with the quantity of each inventory row of the same name, and
  with NULL (\<open>None\<close>) when there is no such row.
\<close>

definition left_join :: "recipe_item list \<Rightarrow> inventory \<Rightarrow> (recipe_item \<times> int option) list" where
  "left_join items ui =
     concat (map (\<lambda>ri.
       (case filter (\<lambda>u. fst u = berry_name ri) ui of
          [] \<Rightarrow> [(ri, None)]
        | u # us \<Rightarrow> map (\<lambda>u'. (ri, Some (snd u'))) (u # us))) items)"

definition ifnull :: "int option \<Rightarrow> int \<Rightarrow> int" where
  "ifnull v dflt = (case v of None \<Rightarrow> dflt | Some x \<Rightarrow> x)"

text \<open>
  Lines 286-290, the craftability condition of the query: there is NO joined row of this
  recipe whose count exceeds \<open>IFNULL(ui.quantity, 0)\<close>.
\<close>

definition craftable :: "db \<Rightarrow> recipe \<Rightarrow> bool" where
  "craftable d r =
     (\<not> list_ex (\<lambda>(ri, quantity). recipe_id ri = id' r \<and> count' ri > ifnull quantity 0)
          (left_join (recipe_items d) (user_inventory d)))"

text \<open>
  Lines 278-281, the ORDER BY clause as a sort key under the lexicographic order of
  pairs; DESC is the negated column.
  \<^item> \<open>prio\<close>: \<open>r.num_berries ASC, r.final_calories DESC\<close>;
  \<^item> otherwise: \<open>r.final_calories DESC, r.stars DESC\<close>.
\<close>

definition order_by :: "bool \<Rightarrow> recipe \<Rightarrow> int \<times> int" where
  "order_by p r =
     (if p then (num_berries r, - final_calories r)
      else (- final_calories r, - stars r))"

text \<open>The rows that satisfy the WHERE part of the query (lines 285-291), in table order.\<close>

definition matching :: "filters \<Rightarrow> db \<Rightarrow> recipe list" where
  "matching f d = filter (\<lambda>r. craftable d r \<and> where_sql f r) (recipes d)"

text \<open>
  Lines 292-293: ORDER BY, then LIMIT 50. Rows that agree on both sort columns are kept
  in table order here (\<open>sort_key\<close> is stable); SQL leaves their order to the engine, and
  no ranking theorem below depends on it.
\<close>

definition ranked :: "filters \<Rightarrow> db \<Rightarrow> recipe list" where
  "ranked f d = take 50 (sort_key (order_by (prio f)) (matching f d))"

text \<open>Line 284: the six selected columns of a result row.\<close>

type_synonym result_row = "int \<times> string \<times> int \<times> int \<times> int \<times> int"

definition select_columns :: "recipe \<Rightarrow> result_row" where
  "select_columns r =
     (id' r, ingredients r, stars r, final_calories r, final_boost r, num_berries r)"

definition run_query :: "filters \<Rightarrow> db \<Rightarrow> result_row list" where
  "run_query f d = map select_columns (ranked f d)"



section \<open>The words of the specification\<close>

text \<open>
  \<open>InventoryStore.get\<close> as the specification words it: the quantity stored for the
  name, 0 when the name has no entry.
\<close>

definition spec_get :: "inventory \<Rightarrow> string \<Rightarrow> int" where
  "spec_get ui name = (case map_of ui name of None \<Rightarrow> 0 | Some q \<Rightarrow> q)"

text \<open>
  The ranking rule as the specification words it: \<open>a\<close> may stand before \<open>b\<close>.
\<close>

definition spec_ranks_before :: "bool \<Rightarrow> recipe \<Rightarrow> recipe \<Rightarrow> bool" where
  "spec_ranks_before p a b =
     (if p
      then num_berries a < num_berries b \<or>
           (num_berries a = num_berries b \<and> final_calories a \<ge> final_calories b)
      else final_calories a > final_calories b \<or>
           (final_calories a = final_calories b \<and> stars a \<ge> stars b))"

text \<open>The inventory invariant as the specification words it: no stored quantity is negative.\<close>

definition spec_nonneg :: "inventory \<Rightarrow> bool" where
  "spec_nonneg ui = list_all (\<lambda>(n, q). 0 \<le> q) ui"

section \<open>Example data\<close>

text \<open>
  A small catalog: the two-berry recipe of the specification's scenario (2 Apple, 1 Pear),
  a recipe of 5 Apple, and a recipe without item rows.
\<close>

definition apple_pear :: recipe where
  "apple_pear =
     \<lparr>id' = 1, ingredients = ''Apple, Apple, Pear'', stars = 3, final_calories = 100,
      final_boost = 4, num_berries = 3, sweet = 420, spicy = 0, sour = 10, bitter = 0,
      fresh = 5, flavor_sum = 435\<rparr>"

definition apples :: recipe where
  "apples =
     \<lparr>id' = 2, ingredients = ''Apple, Apple, Apple, Apple, Apple'', stars = 4,
      final_calories = 150, final_boost = 6, num_berries = 5, sweet = 760, spicy = 0,
      sour = 0, bitter = 0, fresh = 0, flavor_sum = 760\<rparr>"

definition plain :: "int \<Rightarrow> recipe" where
  "plain n =
     \<lparr>id' = n, ingredients = [], stars = 0, final_calories = 0, final_boost = 0,
      num_berries = n, sweet = 0, spicy = 0, sour = 0, bitter = 0, fresh = 0,
      flavor_sum = 0\<rparr>"

definition example_items :: "recipe_item list" where
  "example_items =
     [\<lparr>recipe_id = 1, berry_name = ''Apple'', count' = 2\<rparr>,
      \<lparr>recipe_id = 1, berry_name = ''Pear'', count' = 1\<rparr>,
      \<lparr>recipe_id = 2, berry_name = ''Apple'', count' = 5\<rparr>]"

definition example_db :: db where
  "example_db =
     \<lparr>recipes = [apples, apple_pear, plain 0], recipe_items = example_items,
      user_inventory = [(''Apple'', 5), (''Pear'', 1), (''Plum'', 7)]\<rparr>"

text \<open>The same catalog before the first run: \<open>user_inventory\<close> is still empty.\<close>

definition fresh_db :: db where
  "fresh_db = example_db\<lparr>user_inventory := []\<rparr>"

text \<open>A catalog of 51 recipes without item rows, stored with the largest first.\<close>

definition big_db :: db where
  "big_db =
     \<lparr>recipes = map (\<lambda>n. plain (int n)) (rev [0..<51]), recipe_items = [],
      user_inventory = []\<rparr>"



definition no_filters :: filters where
  "no_filters = \<lparr>flavors = [], stats = None, prio = True\<rparr>"

definition sweet_filter :: filters where
  "sweet_filter = \<lparr>flavors = [(Sweet, 420, 760)], stats = Some (Stars, 0, 5), prio = True\<rparr>"

section \<open>The decrement and the cook transaction\<close>

lemma map_fst_decrement: "map fst (decrement name amount ui) = map fst ui"
  by (induction ui) (auto simp: decrement_def)

lemma map_of_decrement:
  "map_of (decrement name amount ui) n =
     (if n = name then map_option (\<lambda>q. max 0 (q - amount)) (map_of ui n) else map_of ui n)"
  by (induction ui) (auto simp: decrement_def)

lemma decrement_absent: "name \<notin> set (map fst ui) \<Longrightarrow> decrement name amount ui = ui"
  by (induction ui) (auto simp: decrement_def)

lemma decrement_rows_nonneg:
  "(n, q) \<in> set (decrement name amount ui) \<Longrightarrow> n = name \<Longrightarrow> 0 \<le> q"
  by (auto simp: decrement_def split: if_splits)

lemma map_fst_deduct: "map fst (deduct ings ui) = map fst ui"
  by (induction ings ui rule: deduct.induct) (simp_all add: map_fst_decrement)

lemma map_of_deduct_other:
  "n \<notin> set (map fst ings) \<Longrightarrow> map_of (deduct ings ui) n = map_of ui n"
  by (induction ings ui rule: deduct.induct) (auto simp: map_of_decrement)

lemma map_of_deduct_named:
  "distinct (map fst ings) \<Longrightarrow> (n, c) \<in> set ings \<Longrightarrow>
   map_of (deduct ings ui) n = map_option (\<lambda>q. max 0 (q - c)) (map_of ui n)"
proof (induction ings ui rule: deduct.induct)
  case (1 ui)
  then show ?case by simp
next
  case (2 name c' rest ui)
  show ?case
  proof (cases "n = name")
    case True
    with 2 have "c = c'" and "n \<notin> set (map fst rest)"
      by (auto simp: rev_image_eqI)
    then show ?thesis using True
      by (simp add: map_of_deduct_other map_of_decrement)
  next
    case False
    with 2 show ?thesis by (auto simp: map_of_decrement)
  qed
qed

text \<open>
  Claim C3. For a name stored with quantity \<open>q\<close> and any amount \<open>d\<close>, the decrement
  stores \<open>max 0 (q - d)\<close> for that name; no row of that name is negative afterwards,
  whatever \<open>d\<close> is; and the decrement is a total function that keeps the keys of the
  table as they are, so it cannot fail.
\<close>

theorem decrement_floor:
  assumes "map_of ui name = Some q"
  shows "map_of (decrement name d ui) name = Some (max 0 (q - d)) \<and>
         (\<forall>q'. (name, q') \<in> set (decrement name d ui) \<longrightarrow> 0 \<le> q') \<and>
         map fst (decrement name d ui) = map fst ui"
  using assms by (auto simp: map_of_decrement map_fst_decrement dest: decrement_rows_nonneg)

theorem decrement_floor_witness:
  "map_of [(''Apple'', 2), (''Pear'', 1)] ''Apple'' = Some (2::int) \<and>
   map_of (decrement ''Apple'' 5 [(''Apple'', 2), (''Pear'', 1)]) ''Apple'' = Some 0 \<and>
   (''Apple'', 0) \<in> set (decrement ''Apple'' 5 [(''Apple'', 2), (''Pear'', 1)])"
proof -
  have h: "map_of [(''Apple'', 2), (''Pear'', 1)] ''Apple'' = Some (2::int)" by simp
  from decrement_floor [OF h, of 5]
  have "map_of (decrement ''Apple'' 5 [(''Apple'', 2), (''Pear'', 1)]) ''Apple'' = Some 0"
    by simp
  moreover have "(''Apple'', 0) \<in> set (decrement ''Apple'' 5 [(''Apple'', 2), (''Pear'', 1)])"
    by (simp add: decrement_def)
  ultimately show ?thesis using h by blast
qed

text \<open>
  Claim C2. When the ingredient list of the recipe names no berry twice (the data model
  of the catalog), cooking the recipe changes the stored quantity \<open>q\<close> of every
  ingredient \<open>(n, c)\<close> of the list to \<open>max 0 (q - c)\<close>, an ingredient without a row
  stays without one, the entry of every name outside the list is unchanged, and the
  catalog tables are untouched.
\<close>

theorem cook_consistency:
  assumes "cook_recipe rid d = Inr d'"
    and "distinct (map fst (select_ingredients (recipe_items d) rid))"
  shows "(\<forall>(n, c) \<in> set (select_ingredients (recipe_items d) rid).
            map_of (user_inventory d') n =
              map_option (\<lambda>q. max 0 (q - c)) (map_of (user_inventory d) n)) \<and>
         (\<forall>n. n \<notin> set (map fst (select_ingredients (recipe_items d) rid)) \<longrightarrow>
            map_of (user_inventory d') n = map_of (user_inventory d) n) \<and>
         recipes d' = recipes d \<and> recipe_items d' = recipe_items d"
  using assms by (auto simp: cook_recipe_def map_of_deduct_named map_of_deduct_other)

theorem cook_consistency_witness:
  "cook_recipe 1 example_db =
     Inr (example_db\<lparr>user_inventory := [(''Apple'', 3), (''Pear'', 0), (''Plum'', 7)]\<rparr>) \<and>
   distinct (map fst (select_ingredients (recipe_items example_db) 1)) \<and>
   (''Apple'', 2) \<in> set (select_ingredients (recipe_items example_db) 1) \<and>
   map_of (user_inventory
      (example_db\<lparr>user_inventory := [(''Apple'', 3), (''Pear'', 0), (''Plum'', 7)]\<rparr>)) ''Apple'' =
     map_option (\<lambda>q. max 0 (q - 2)) (map_of (user_inventory example_db) ''Apple'') \<and>
   ''Plum'' \<notin> set (map fst (select_ingredients (recipe_items example_db) 1)) \<and>
   map_of (user_inventory
      (example_db\<lparr>user_inventory := [(''Apple'', 3), (''Pear'', 0), (''Plum'', 7)]\<rparr>)) ''Plum'' =
     map_of (user_inventory example_db) ''Plum''"
proof -
  let ?d' = "example_db\<lparr>user_inventory := [(''Apple'', 3), (''Pear'', 0), (''Plum'', 7)]\<rparr>"
  have h1: "cook_recipe 1 example_db = Inr ?d'" by code_simp
  have h2: "distinct (map fst (select_ingredients (recipe_items example_db) 1))"
    by code_simp
  have h3: "(''Apple'', 2) \<in> set (select_ingredients (recipe_items example_db) 1)"
    by code_simp
  have h4: "''Plum'' \<notin> set (map fst (select_ingredients (recipe_items example_db) 1))"
    by code_simp
  from cook_consistency [OF h1 h2] h3 h4 h1 h2 show ?thesis by blast
qed

text \<open>
  Claim C6 fails on the code: \<open>cook_recipe\<close> has no lookup that can fail. For the id 99,
  which no recipe of the example catalog carries, it returns normally.
\<close>

theorem cook_absent_counterexample:
  "99 \<notin> id' ` set (recipes example_db) \<and>
   cook_recipe 99 example_db \<noteq> Inl NotFoundError \<and>
   cook_recipe 99 example_db = Inr example_db"
  by code_simp

text \<open>
  Claim C6 as amended. For a recipe id absent from the catalog, all of whose item rows
  belong to catalogued recipes, \<open>cook_recipe\<close> returns normally, without any error,
  and leaves the whole database, so every inventory quantity, unchanged.
\<close>

theorem cook_absent:
  assumes "rid \<notin> id' ` set (recipes d)"
    and "recipe_id ` set (recipe_items d) \<subseteq> id' ` set (recipes d)"
  shows "cook_recipe rid d = Inr d"
proof -
  from assms have "filter (\<lambda>ri. recipe_id ri = rid) (recipe_items d) = []"
    by (auto simp: filter_empty_conv)
  then show ?thesis by (simp add: cook_recipe_def select_ingredients_def)
qed

theorem cook_absent_witness:
  "7 \<notin> id' ` set (recipes example_db) \<and>
   recipe_id ` set (recipe_items example_db) \<subseteq> id' ` set (recipes example_db) \<and>
   cook_recipe 7 example_db = Inr example_db"
proof -
  have h1: "7 \<notin> id' ` set (recipes example_db)" by code_simp
  have h2: "recipe_id ` set (recipe_items example_db) \<subseteq> id' ` set (recipes example_db)"
    by code_simp
  from cook_absent [OF h1 h2] h1 h2 show ?thesis by blast
qed

text \<open>
  Claim C10. Decrementing a name that has no row changes nothing: the table is returned
  as it was, no row is created. The keys of the table are the same after every decrement
  and after every call of \<open>cook_recipe\<close>, which always returns normally.
\<close>

theorem decrement_missing_noop:
  "(name \<notin> set (map fst ui) \<longrightarrow> decrement name d ui = ui) \<and>
   map fst (decrement name d ui) = map fst ui \<and>
   (\<exists>db'. cook_recipe rid db = Inr db' \<and>
      map fst (user_inventory db') = map fst (user_inventory db))"
  by (simp add: decrement_absent map_fst_decrement cook_recipe_def map_fst_deduct)

theorem decrement_missing_noop_witness:
  "''Kiwi'' \<notin> set (map fst (user_inventory example_db)) \<and>
   decrement ''Kiwi'' 3 (user_inventory example_db) = user_inventory example_db"
proof -
  have h: "''Kiwi'' \<notin> set (map fst (user_inventory example_db))" by code_simp
  from decrement_missing_noop [of "''Kiwi''" "user_inventory example_db" 3] h
  show ?thesis by blast
qed

section \<open>Craftability\<close>

text \<open>Under the primary key, at most one inventory row joins an item row.\<close>

lemma filter_primary_key:
  "primary_key ui \<Longrightarrow>
   filter (\<lambda>u. fst u = n) ui = (case map_of ui n of None \<Rightarrow> [] | Some q \<Rightarrow> [(n, q)])"
proof (induction ui)
  case Nil
  then show ?case by simp
next
  case (Cons u ui)
  obtain a b where u: "u = (a, b)" by (cases u)
  from Cons.prems have pk: "primary_key ui" and fresh: "a \<notin> set (map fst ui)"
    by (simp_all add: primary_key_def u)
  show ?case
  proof (cases "a = n")
    case True
    with fresh have "filter (\<lambda>u. fst u = n) ui = []"
      by (auto simp: filter_empty_conv)
    with True show ?thesis by (simp add: u)
  next
    case False
    with Cons.IH [OF pk] show ?thesis by (simp add: u)
  qed
qed

lemma left_join_primary_key:
  "primary_key ui \<Longrightarrow>
   left_join items ui = map (\<lambda>ri. (ri, map_of ui (berry_name ri))) items"
  by (induction items)
     (simp_all add: left_join_def filter_primary_key split: option.splits)

lemma ifnull_map_of: "ifnull (map_of ui n) 0 = spec_get ui n"
  by (simp add: ifnull_def spec_get_def)

lemma craftable_primary_key:
  assumes "primary_key (user_inventory d)"
  shows "craftable d r \<longleftrightarrow>
         (\<forall>(n, c) \<in> set (select_ingredients (recipe_items d) (id' r)).
            c \<le> spec_get (user_inventory d) n)"
  using assms
  by (auto simp: craftable_def left_join_primary_key list_ex_iff ifnull_map_of
        select_ingredients_def not_less)

text \<open>
  Claim C1. In a database whose inventory keeps its primary key, the query's NOT EXISTS
  condition holds for a recipe exactly when every pair (ingredient, required count) of
  the recipe's ingredient list finds at least the required count in the inventory, a
  missing name reading as 0. A recipe with no ingredient rows is craftable under every
  inventory, and a recipe of the catalog is among the rows matched by a search without
  filters exactly when it is craftable.
\<close>

theorem craftable_iff_stock:
  assumes "primary_key (user_inventory d)"
  shows "(craftable d r \<longleftrightarrow>
           (\<forall>(n, c) \<in> set (select_ingredients (recipe_items d) (id' r)).
              spec_get (user_inventory d) n \<ge> c)) \<and>
         (select_ingredients (recipe_items d) (id' r) = [] \<longrightarrow> craftable d r) \<and>
         (r \<in> set (matching \<lparr>flavors = [], stats = None, prio = p\<rparr> d) \<longleftrightarrow>
            r \<in> set (recipes d) \<and> craftable d r)"
  using craftable_primary_key [OF assms, of r]
  by (auto simp: matching_def where_sql_def where_clauses_def)

theorem craftable_iff_stock_witness:
  "primary_key (user_inventory example_db) \<and>
   craftable example_db apple_pear \<and>
   select_ingredients (recipe_items example_db) (id' apple_pear) =
     [(''Apple'', 2), (''Pear'', 1)] \<and>
   spec_get (user_inventory example_db) ''Apple'' \<ge> 2 \<and>
   spec_get (user_inventory example_db) ''Pear'' \<ge> 1 \<and>
   select_ingredients (recipe_items example_db) (id' (plain 0)) = [] \<and>
   craftable example_db (plain 0) \<and>
   primary_key (user_inventory (example_db\<lparr>user_inventory := [(''Apple'', 5), (''Pear'', 0)]\<rparr>)) \<and>
   spec_get [(''Apple'', 5), (''Pear'', 0)] ''Pear'' < 1 \<and>
   \<not> craftable (example_db\<lparr>user_inventory := [(''Apple'', 5), (''Pear'', 0)]\<rparr>) apple_pear"
proof -
  let ?low = "example_db\<lparr>user_inventory := [(''Apple'', 5), (''Pear'', 0)]\<rparr>"
  have pk: "primary_key (user_inventory example_db)" by code_simp
  have cr: "craftable example_db apple_pear" by code_simp
  have ings: "select_ingredients (recipe_items example_db) (id' apple_pear) =
     [(''Apple'', 2), (''Pear'', 1)]" by code_simp
  have em: "select_ingredients (recipe_items example_db) (id' (plain 0)) = []" by code_simp
  have pk': "primary_key (user_inventory ?low)" by code_simp
  have less: "spec_get [(''Apple'', 5), (''Pear'', 0)] ''Pear'' < 1" by code_simp
  have short: "\<not> (\<forall>(n, c) \<in> set (select_ingredients (recipe_items ?low) (id' apple_pear)).
      spec_get (user_inventory ?low) n \<ge> c)" by code_simp
  from craftable_iff_stock [OF pk, of apple_pear] cr
  have "\<forall>(n, c) \<in> set (select_ingredients (recipe_items example_db) (id' apple_pear)).
      spec_get (user_inventory example_db) n \<ge> c" by blast
  then have a: "spec_get (user_inventory example_db) ''Apple'' \<ge> 2 \<and>
      spec_get (user_inventory example_db) ''Pear'' \<ge> 1"
    unfolding ings by simp
  from craftable_iff_stock [OF pk, of "plain 0"] em
  have b: "craftable example_db (plain 0)" by blast
  from craftable_iff_stock [OF pk', of apple_pear] short
  have c: "\<not> craftable ?low apple_pear" by blast
  from pk cr ings a em b pk' less c show ?thesis by blast
qed

text \<open>
  Claim C8. Two databases with the same item rows, both inventories keeping the primary
  key: when every name reads at least as much in the second inventory as in the first
  (a missing name reading as 0), a recipe craftable under the first is craftable under
  the second.
\<close>

theorem craftable_monotone:
  assumes "primary_key (user_inventory d)" and "primary_key (user_inventory d')"
    and "recipe_items d' = recipe_items d"
    and "\<forall>n. spec_get (user_inventory d) n \<le> spec_get (user_inventory d') n"
    and "craftable d r"
  shows "craftable d' r"
proof -
  have "c \<le> spec_get (user_inventory d') n"
    if "(n, c) \<in> set (select_ingredients (recipe_items d') (id' r))" for n c
  proof -
    from that assms(1,3,5) have "c \<le> spec_get (user_inventory d) n"
      by (auto simp: craftable_primary_key)
    also from assms(4) have "\<dots> \<le> spec_get (user_inventory d') n" by blast
    finally show ?thesis .
  qed
  with assms(2) show ?thesis by (auto simp: craftable_primary_key)
qed

theorem craftable_monotone_witness:
  "primary_key (user_inventory example_db) \<and>
   primary_key [(''Pear'', 4), (''Apple'', 9), (''Plum'', 7)] \<and>
   (\<forall>n. spec_get (user_inventory example_db) n \<le>
        spec_get [(''Pear'', 4), (''Apple'', 9), (''Plum'', 7)] n) \<and>
   craftable example_db apple_pear \<and>
   craftable (example_db\<lparr>user_inventory := [(''Pear'', 4), (''Apple'', 9), (''Plum'', 7)]\<rparr>)
     apple_pear"
proof -
  let ?more = "example_db\<lparr>user_inventory := [(''Pear'', 4), (''Apple'', 9), (''Plum'', 7)]\<rparr>"
  have pk: "primary_key (user_inventory example_db)" by code_simp
  have pk': "primary_key (user_inventory ?more)" by code_simp
  have it: "recipe_items ?more = recipe_items example_db" by simp
  have le: "\<forall>n. spec_get (user_inventory example_db) n \<le> spec_get (user_inventory ?more) n"
    by (simp add: example_db_def spec_get_def)
  have cr: "craftable example_db apple_pear" by code_simp
  from craftable_monotone [OF pk pk' it le cr] have "craftable ?more apple_pear" .
  with pk pk' le cr show ?thesis by simp
qed


section \<open>The filter\<close>

lemma flavor_clauses:
  "list_all (\<lambda>clause. clause r) (map (\<lambda>(c, min_v, max_v). between c min_v max_v) xs) \<longleftrightarrow>
   (\<forall>(c, min_v, max_v) \<in> set xs. min_v \<le> col c r \<and> col c r \<le> max_v)"
  by (induction xs) (simp_all add: between_def split_beta)

lemma stat_clause:
  "list_all (\<lambda>clause. clause r)
     (case st of None \<Rightarrow> [] | Some (c, min_v, max_v) \<Rightarrow> [between c min_v max_v]) \<longleftrightarrow>
   (\<forall>c min_v max_v. st = Some (c, min_v, max_v) \<longrightarrow> min_v \<le> col c r \<and> col c r \<le> max_v)"
  by (cases st) (auto simp: between_def)

text \<open>
  Claim C4. A recipe satisfies the WHERE clauses built from the filters exactly when its
  value lies in \<open>[min, max]\<close>, both bounds included, for every entered flavor range
  and, when a stat filter is present, for the stat range. Only entered ranges occur in
  the condition: a column without a range is not looked at, and with no range at all
  every recipe passes.
\<close>

theorem filter_inclusive:
  "(where_sql f r \<longleftrightarrow>
     (\<forall>(c, min_v, max_v) \<in> set (flavors f). min_v \<le> col c r \<and> col c r \<le> max_v) \<and>
     (\<forall>c min_v max_v. stats f = Some (c, min_v, max_v) \<longrightarrow>
        min_v \<le> col c r \<and> col c r \<le> max_v)) \<and>
   (flavors f = [] \<and> stats f = None \<longrightarrow> where_sql f r)"
proof -
  have "where_sql f r \<longleftrightarrow>
     (\<forall>(c, min_v, max_v) \<in> set (flavors f). min_v \<le> col c r \<and> col c r \<le> max_v) \<and>
     (\<forall>c min_v max_v. stats f = Some (c, min_v, max_v) \<longrightarrow>
        min_v \<le> col c r \<and> col c r \<le> max_v)"
    unfolding where_sql_def where_clauses_def list_all_append
    by (simp only: flavor_clauses stat_clause)
  then show ?thesis by simp
qed

theorem filter_inclusive_witness:
  "flavors sweet_filter = [(Sweet, 420, 760)] \<and>
   stats sweet_filter = Some (Stars, 0, 5) \<and>
   col Sweet apple_pear = 420 \<and> col Sweet apples = 760 \<and>
   where_sql sweet_filter apple_pear \<and> where_sql sweet_filter apples \<and>
   \<not> where_sql sweet_filter (plain 0) \<and>
   where_sql no_filters (plain 0)"
proof -
  have fl: "\<forall>(c, min_v, max_v) \<in> set (flavors sweet_filter).
      min_v \<le> col c apple_pear \<and> col c apple_pear \<le> max_v" by code_simp
  have st: "stats sweet_filter = Some (Stars, 0, 5)" by code_simp
  have sr: "0 \<le> col Stars apple_pear \<and> col Stars apple_pear \<le> 5" by code_simp
  have lo: "col Sweet apple_pear = 420" and hi: "col Sweet apples = 760" by code_simp+
  have fl2: "\<forall>(c, min_v, max_v) \<in> set (flavors sweet_filter).
      min_v \<le> col c apples \<and> col c apples \<le> max_v" by code_simp
  have sr2: "0 \<le> col Stars apples \<and> col Stars apples \<le> 5" by code_simp
  have out: "\<not> (\<forall>(c, min_v, max_v) \<in> set (flavors sweet_filter).
      min_v \<le> col c (plain 0) \<and> col c (plain 0) \<le> max_v)" by code_simp
  have none: "flavors no_filters = [] \<and> stats no_filters = None" by code_simp
  from filter_inclusive [of sweet_filter apple_pear] fl st sr
  have a: "where_sql sweet_filter apple_pear" by simp
  from filter_inclusive [of sweet_filter apples] fl2 st sr2
  have b: "where_sql sweet_filter apples" by simp
  from filter_inclusive [of sweet_filter "plain 0"] out
  have c: "\<not> where_sql sweet_filter (plain 0)" by blast
  from filter_inclusive [of no_filters "plain 0"] none
  have d: "where_sql no_filters (plain 0)" by blast
  have fs: "flavors sweet_filter = [(Sweet, 420, 760)]" by code_simp
  from fs st lo hi a b c d show ?thesis by blast
qed

section \<open>Ranking and the limit\<close>

lemma order_by_ranks:
  "order_by p a \<le> order_by p b \<longleftrightarrow> spec_ranks_before p a b"
  by (auto simp: order_by_def spec_ranks_before_def)

lemma sorted_ranks:
  "sorted_wrt (spec_ranks_before p) (sort_key (order_by p) xs)"
proof -
  have "sorted (map (order_by p) (sort_key (order_by p) xs))"
    by (rule sorted_sort_key)
  then show ?thesis
    by (simp add: sorted_map order_by_ranks)
qed

lemma mset_minus_take: "mset xs - mset (take n xs) = mset (drop n xs)"
proof -
  have "mset xs = mset (take n xs) + mset (drop n xs)"
    by (simp flip: mset_append)
  then show ?thesis by simp
qed

lemma take_before_drop:
  assumes "sorted_wrt R xs" and "a \<in> set (take n xs)" and "b \<in> set (drop n xs)"
  shows "R a b"
proof -
  from assms(1) have "sorted_wrt R (take n xs @ drop n xs)" by simp
  with assms(2,3) show ?thesis unfolding sorted_wrt_append by blast
qed

text \<open>
  Claim C5. The rows in front of the LIMIT are the recipes of the catalog that are
  craftable and pass the filters. The result is taken from them without inventing or
  repeating a row, has \<open>min 50\<close> of their number as length, and is ordered by the
  ranking rule: with \<open>prio\<close> ascending by \<open>num_berries\<close>, ties by descending
  \<open>final_calories\<close>; without it descending by \<open>final_calories\<close>, ties by descending
  \<open>stars\<close>. The cut comes after the sort: every returned recipe ranks before every
  qualifying recipe that was cut off.
\<close>

theorem ranked_order:
  "(\<forall>r. r \<in> set (matching f d) \<longleftrightarrow> r \<in> set (recipes d) \<and> craftable d r \<and> where_sql f r) \<and>
   mset (ranked f d) \<subseteq># mset (matching f d) \<and>
   length (ranked f d) = min 50 (length (matching f d)) \<and>
   sorted_wrt (spec_ranks_before (prio f)) (ranked f d) \<and>
   (\<forall>a \<in> set (ranked f d). \<forall>b \<in># mset (matching f d) - mset (ranked f d).
      spec_ranks_before (prio f) a b) \<and>
   run_query f d = map select_columns (ranked f d)"
proof -
  let ?ys = "sort_key (order_by (prio f)) (matching f d)"
  have ms: "mset ?ys = mset (matching f d)" by simp
  have s: "sorted_wrt (spec_ranks_before (prio f)) ?ys" by (rule sorted_ranks)
  have 1: "\<forall>r. r \<in> set (matching f d) \<longleftrightarrow> r \<in> set (recipes d) \<and> craftable d r \<and> where_sql f r"
    by (auto simp: matching_def)
  have "mset (take 50 ?ys) \<subseteq># mset ?ys"
    by (metis append_take_drop_id mset_append mset_subset_eq_add_left)
  then have 2: "mset (ranked f d) \<subseteq># mset (matching f d)"
    by (simp add: ranked_def)
  have 3: "length (ranked f d) = min 50 (length (matching f d))"
    by (simp add: ranked_def min.commute)
  from s have 4: "sorted_wrt (spec_ranks_before (prio f)) (ranked f d)"
    unfolding ranked_def by (rule sorted_wrt_take)
  have "mset (matching f d) - mset (ranked f d) = mset (drop 50 ?ys)"
    unfolding ranked_def using mset_minus_take [of ?ys 50] by simp
  then have 5: "\<forall>a \<in> set (ranked f d). \<forall>b \<in># mset (matching f d) - mset (ranked f d).
      spec_ranks_before (prio f) a b"
    using take_before_drop [OF s] by (simp add: ranked_def)
  have 6: "run_query f d = map select_columns (ranked f d)"
    by (simp add: run_query_def)
  from 1 2 3 4 5 6 show ?thesis by blast
qed

theorem ranked_order_witness:
  "plain 0 \<in> set (ranked no_filters big_db) \<and>
   plain 50 \<in># mset (matching no_filters big_db) - mset (ranked no_filters big_db) \<and>
   hd (recipes big_db) = plain 50 \<and>
   length (matching no_filters big_db) = 51 \<and>
   length (ranked no_filters big_db) = 50 \<and>
   spec_ranks_before (prio no_filters) (plain 0) (plain 50) \<and>
   ranked sweet_filter example_db = [apple_pear, apples] \<and>
   sorted_wrt (spec_ranks_before (prio sweet_filter)) [apple_pear, apples]"
proof -
  have a: "plain 0 \<in> set (ranked no_filters big_db)" by code_simp
  have b: "plain 50 \<in># mset (matching no_filters big_db) - mset (ranked no_filters big_db)"
    by code_simp
  have h: "hd (recipes big_db) = plain 50" by code_simp
  have n: "length (matching no_filters big_db) = 51" by code_simp
  have e: "ranked sweet_filter example_db = [apple_pear, apples]" by code_simp
  from ranked_order [of no_filters big_db] a b
  have r: "spec_ranks_before (prio no_filters) (plain 0) (plain 50)" by blast
  from ranked_order [of no_filters big_db] n
  have l: "length (ranked no_filters big_db) = 50" by simp
  from ranked_order [of sweet_filter example_db] e
  have s: "sorted_wrt (spec_ranks_before (prio sweet_filter)) [apple_pear, apples]" by simp
  from a b h n l r e s show ?thesis by blast
qed


section \<open>Repeated searches\<close>









section \<open>Seeding\<close>

lemma init_db_idem: "init_db (init_db d) = init_db d"
proof (cases "user_inventory d = []")
  case False
  then show ?thesis by (simp add: init_db_def)
next
  case True
  let ?F = "fold insert_or_ignore (select_distinct (map berry_name (recipe_items d))) []"
  show ?thesis
  proof (cases "?F = []")
    case True
    with \<open>user_inventory d = []\<close> show ?thesis by (simp add: init_db_def)
  next
    case False
    with \<open>user_inventory d = []\<close> show ?thesis by (simp add: init_db_def)
  qed
qed

text \<open>
  On the example catalog, whose item rows name Apple, Pear, Apple, the empty inventory is
  seeded with Apple and then Pear, each with quantity 0.
\<close>

lemma init_db_seeds:
  "select_distinct [''Berry'', ''Apple'', ''Berry'', ''Cherry''] = [''Berry'', ''Apple'', ''Cherry''] \<and>
   init_db fresh_db = fresh_db\<lparr>user_inventory := [(''Apple'', 0), (''Pear'', 0)]\<rparr>"
  by code_simp

section \<open>The invariants of user_inventory\<close>

text \<open>The primary key survives every statement that writes the table.\<close>

lemma primary_key_insert_or_ignore:
  "primary_key ui \<Longrightarrow> primary_key (insert_or_ignore name ui)"
  by (simp add: primary_key_def insert_or_ignore_def)

lemma primary_key_fold_insert:
  "primary_key ui \<Longrightarrow> primary_key (fold insert_or_ignore names ui)"
  by (induction names arbitrary: ui) (simp_all add: primary_key_insert_or_ignore)

lemma primary_key_init_db:
  "primary_key (user_inventory d) \<Longrightarrow> primary_key (user_inventory (init_db d))"
  using primary_key_fold_insert [of "user_inventory d"] by (auto simp: init_db_def)

lemma map_fst_set_quantity: "map fst (set_quantity name quantity ui) = map fst ui"
  by (induction ui) (auto simp: set_quantity_def)

lemma map_fst_update_rows: "map fst (update_rows df ui) = map fst ui"
  by (induction df ui rule: update_rows.induct) (simp_all add: map_fst_set_quantity)

lemma primary_key_save_inventory:
  "primary_key (user_inventory d) \<Longrightarrow> primary_key (user_inventory (save_inventory df d))"
  by (simp add: save_inventory_def primary_key_def map_fst_update_rows)

lemma primary_key_cook_recipe:
  "primary_key (user_inventory d) \<Longrightarrow> cook_recipe rid d = Inr d' \<Longrightarrow>
   primary_key (user_inventory d')"
  by (auto simp: cook_recipe_def primary_key_def map_fst_deduct)

text \<open>
  Seeding and cooking keep every stored quantity non-negative, and so does
  \<open>save_inventory\<close> when the data frame it is given holds no negative quantity.
\<close>

lemma nonneg_insert_or_ignore:
  "spec_nonneg ui \<Longrightarrow> spec_nonneg (insert_or_ignore name ui)"
  by (simp add: spec_nonneg_def insert_or_ignore_def)

lemma nonneg_fold_insert:
  "spec_nonneg ui \<Longrightarrow> spec_nonneg (fold insert_or_ignore names ui)"
  by (induction names arbitrary: ui) (simp_all add: nonneg_insert_or_ignore)

lemma nonneg_init_db:
  "spec_nonneg (user_inventory d) \<Longrightarrow> spec_nonneg (user_inventory (init_db d))"
  using nonneg_fold_insert [of "user_inventory d"] by (auto simp: init_db_def)

lemma nonneg_decrement: "spec_nonneg ui \<Longrightarrow> spec_nonneg (decrement name amount ui)"
  by (auto simp: spec_nonneg_def decrement_def list_all_iff split: if_splits)

lemma nonneg_deduct: "spec_nonneg ui \<Longrightarrow> spec_nonneg (deduct ings ui)"
  by (induction ings ui rule: deduct.induct) (simp_all add: nonneg_decrement)

lemma nonneg_cook_recipe:
  "spec_nonneg (user_inventory d) \<Longrightarrow> cook_recipe rid d = Inr d' \<Longrightarrow>
   spec_nonneg (user_inventory d')"
  by (auto simp: cook_recipe_def nonneg_deduct)

lemma nonneg_set_quantity:
  "0 \<le> quantity \<Longrightarrow> spec_nonneg ui \<Longrightarrow> spec_nonneg (set_quantity name quantity ui)"
  by (auto simp: spec_nonneg_def set_quantity_def list_all_iff split: if_splits)

lemma nonneg_update_rows:
  "spec_nonneg df \<Longrightarrow> spec_nonneg ui \<Longrightarrow> spec_nonneg (update_rows df ui)"
proof (induction df ui rule: update_rows.induct)
  case (1 ui)
  then show ?case by simp
next
  case (2 name quantity rows ui)
  from "2.prems" have "0 \<le> quantity" and "spec_nonneg rows"
    by (simp_all add: spec_nonneg_def)
  with 2 show ?case by (simp add: nonneg_set_quantity)
qed

text \<open>
  Claim C7 does not hold for the import. An uploaded file with the two required columns
  and the row \<open>Pear,-5\<close> passes the only check of the import (line 142), and
  \<open>save_inventory\<close> writes the quantity as it is: from an inventory without a
  negative quantity the import reaches one that stores -5 for Pear.
\<close>

theorem import_stores_negative:
  "spec_nonneg (user_inventory example_db) \<and>
   user_inventory (confirm_import [''berry_name'', ''quantity''] [(''Pear'', - 5)] example_db) =
     [(''Apple'', 5), (''Pear'', - 5), (''Plum'', 7)] \<and>
   \<not> spec_nonneg
       (user_inventory (confirm_import [''berry_name'', ''quantity''] [(''Pear'', - 5)] example_db))"
  by code_simp

end
